theory Spec2Isabelle
  imports Complex_Main
begin

section \<open>The fashion-retail dashboard (app.py)\<close>

text \<open>
  app.py is one script: it reads two CSV tables, filters them by the widgets' values,
  computes segment averages, a two-dimensional PCA projection and four breakdowns, and
  shows an association-rules table when its file exists. The script is embedded here as
  functions on lists of rows.

  Conventions of the embedding.
  \<^item> A pandas float cell is a \<open>pyfloat\<close>: a number or NaN. Arithmetic on numbers is exact
    real arithmetic; the rounding of float64 is outside the model.
  \<^item> A table is the list of its rows, in file order; the default index of
    \<^verbatim>\<open>pd.read_csv\<close> numbers them from 0, so the index label of a row is its position.
  \<^item> The two scikit-learn calls, \<^verbatim>\<open>StandardScaler().fit_transform\<close> and
    \<^verbatim>\<open>PCA(n_components=2).fit_transform\<close>, are parameters of the model: a function from
    the matrix passed to either an exception or the returned array. Where a statement is
    about what the library computes, the two calls are modelled from the specification
    and the library's documentation.
  \<^item> An exception is a value: a computation that can raise returns \<open>pyexc + 'a\<close>, with
    \<open>Inl\<close> the exception that ends the script.
  \<^item> Where a statement is about what the script leaves unchanged, the same lines are
    run on an explicit store of objects, with the variables as references into it.
  \<^item> The calls that only draw (\<^verbatim>\<open>st.metric\<close>, the charts, the formatting of numbers as
    text) are not modelled: a run yields the values handed to them.
\<close>

subsection \<open>Data\<close>

datatype pyfloat = Num real | NaN

text \<open>
  The exceptions the model distinguishes. \<open>InsufficientDataError\<close> is the exception
  the specification names for the projection; no statement of app.py raises it.
\<close>

datatype pyexc = FileNotFoundError | ParserError | ValueError | NameError | TypeError
  | InsufficientDataError

text \<open>A row of rfm\_with\_clusters.csv, with the four columns the script reads.\<close>

record 'c customer =
  Recency :: real
  Frequency :: real
  Monetary :: real
  Cluster :: 'c

text \<open>A row of clothing\_retail\_300.csv, with the six columns the script reads.\<close>

record transaction =
  Country :: string
  Season :: string
  Category :: string
  Size :: string
  Gender :: string
  LineTotal :: real

text \<open>A row of rules\_sorted.csv, with the five columns the script shows.\<close>

record rule =
  antecedents :: string
  consequents :: string
  support :: real
  confidence :: real
  lift :: real

type_synonym matrix = "real list list"

subsection \<open>Customer segmentation (lines 53 to 60)\<close>

text \<open>
  \<^verbatim>\<open>filtered_rfm = rfm[rfm["Cluster"] == selected_cluster]\<close>: the rows whose label is
  the selected one, in table order.
\<close>

definition filtered_rfm :: "'c customer list \<Rightarrow> 'c \<Rightarrow> 'c customer list" where
  "filtered_rfm rfm selected_cluster = filter (\<lambda>r. Cluster r = selected_cluster) rfm"

text \<open>\<^verbatim>\<open>Series.mean()\<close>: the sum over the count; NaN for a column with no cell.\<close>

definition mean :: "real list \<Rightarrow> pyfloat" where
  "mean xs = (if xs = [] then NaN else Num (sum_list xs / real (length xs)))"

text \<open>
  What lines 54 to 60 hand to the page: the filtered frame of \<^verbatim>\<open>st.dataframe\<close>, whose
  number of rows is \<open>count\<close>, and the three means of the \<^verbatim>\<open>metric\<close> widgets (before
  they are formatted as text).
\<close>

record segment_stats =
  count :: nat
  avgRecency :: pyfloat
  avgFrequency :: pyfloat
  avgMonetary :: pyfloat

definition summarize :: "'c customer list \<Rightarrow> 'c \<Rightarrow> segment_stats" where
  "summarize rfm selected_cluster =
     (let filtered = filtered_rfm rfm selected_cluster
      in \<lparr>count = length filtered,
          avgRecency = mean (map Recency filtered),
          avgFrequency = mean (map Frequency filtered),
          avgMonetary = mean (map Monetary filtered)\<rparr>)"

text \<open>
  The specification's side of the comparison: the positions of the records of a table
  that carry a given label.
\<close>

definition rows_with_label :: "'c customer list \<Rightarrow> 'c \<Rightarrow> nat set" where
  "rows_with_label rfm l = {i. i < length rfm \<and> Cluster (rfm ! i) = l}"

subsection \<open>PCA projection (lines 64 to 69)\<close>

text \<open>\<^verbatim>\<open>rfm[["Recency", "Frequency", "Monetary"]]\<close>: one row of three numbers per record.\<close>

definition features :: "'c customer list \<Rightarrow> matrix" where
  "features rfm = map (\<lambda>r. [Recency r, Frequency r, Monetary r]) rfm"

text \<open>
  A row of \<^verbatim>\<open>pca_df\<close>. The label is optional: a row whose index label the assigned
  series lacks gets NaN (\<open>None\<close>).
\<close>

record 'c pca_point =
  PC1 :: real
  PC2 :: real
  PCluster :: "'c option"

text \<open>
  Lines 68 and 69: \<^verbatim>\<open>pd.DataFrame(pca_coords, columns=["PC1", "PC2"])\<close> numbers the rows of
  the array from 0, and \<^verbatim>\<open>pca_df["Cluster"] = rfm["Cluster"]\<close> aligns the assigned series
  with that index: row \<open>i\<close> gets the label that \<^verbatim>\<open>rfm\<close> has at index \<open>i\<close>, or NaN when
  \<^verbatim>\<open>rfm\<close> has no such index.
\<close>

definition pca_df :: "(real \<times> real) list \<Rightarrow> 'c list \<Rightarrow> 'c pca_point list" where
  "pca_df pca_coords labels =
     map (\<lambda>i. \<lparr>PC1 = fst (pca_coords ! i), PC2 = snd (pca_coords ! i),
               PCluster = (if i < length labels then Some (labels ! i) else None)\<rparr>)
       [0..<length pca_coords]"

text \<open>
  Lines 64 to 69. An exception of either library call ends the computation; the script
  has no check of its own between the calls.
\<close>

definition project ::
  "(matrix \<Rightarrow> pyexc + matrix) \<Rightarrow> (matrix \<Rightarrow> pyexc + (real \<times> real) list) \<Rightarrow>
   'c customer list \<Rightarrow> pyexc + 'c pca_point list" where
  "project scaler pca rfm =
     (case scaler (features rfm) of
        Inl e \<Rightarrow> Inl e
      | Inr X \<Rightarrow>
          (case pca X of
             Inl e \<Rightarrow> Inl e
           | Inr pca_coords \<Rightarrow> Inr (pca_df pca_coords (map Cluster rfm))))"

subsection \<open>Breakdowns of the transactions (lines 48 and 79 to 94)\<close>

definition filtered_df :: "transaction list \<Rightarrow> string \<Rightarrow> string \<Rightarrow> transaction list" where
  "filtered_df df country season = filter (\<lambda>r. Country r = country \<and> Season r = season) df"

text \<open>
  \<^verbatim>\<open>Series.value_counts()\<close>: every value that occurs with its number of occurrences, the
  most frequent first. Values are taken in order of first appearance and sorted stably;
  the order pandas gives to equal counts is not used by any statement below.
\<close>

definition value_counts :: "string list \<Rightarrow> (string \<times> nat) list" where
  "value_counts xs =
     sort_key (\<lambda>p. - int (snd p)) (map (\<lambda>x. (x, count_list xs x)) (rev (remdups (rev xs))))"

definition top_categories :: "transaction list \<Rightarrow> (string \<times> nat) list" where
  "top_categories fdf = take 5 (value_counts (map Category fdf))"

text \<open>
  \<^verbatim>\<open>value_counts().reindex([...])\<close>: one entry per listed label, NaN for a label that
  does not occur.
\<close>

definition size_counts :: "transaction list \<Rightarrow> (string \<times> pyfloat) list" where
  "size_counts fdf =
     map (\<lambda>s. (s, let n = count_list (map Size fdf) s in if n = 0 then NaN else Num (real n)))
       [''XS'', ''S'', ''M'', ''L'', ''XL'']"

definition gender_counts :: "transaction list \<Rightarrow> (string \<times> nat) list" where
  "gender_counts fdf = value_counts (map Gender fdf)"

text \<open>
  \<^verbatim>\<open>df.groupby("Season")["LineTotal"].sum().reindex([...])\<close>: the total of each listed
  season over the whole table, NaN for a season with no row.
\<close>

definition seasonal_revenue :: "transaction list \<Rightarrow> (string \<times> pyfloat) list" where
  "seasonal_revenue df =
     map (\<lambda>s. (s, let g = filter (\<lambda>r. Season r = s) df
                  in if g = [] then NaN else Num (sum_list (map LineTotal g))))
       [''Winter'', ''Spring'', ''Summer'', ''Fall'']"

subsection \<open>Association rules (lines 99 to 105)\<close>

text \<open>\<^verbatim>\<open>str.replace(old, "")\<close> for a non-empty \<open>old\<close>: every occurrence, left to right.\<close>

fun str_remove :: "string \<Rightarrow> string \<Rightarrow> string" where
  "str_remove old [] = []"
| "str_remove old (c # cs) =
     (if old \<noteq> [] \<and> take (length old) (c # cs) = old
      then str_remove old (drop (length old - 1) cs)
      else c # str_remove old cs)"

text \<open>\<^verbatim>\<open>str.strip(chars)\<close>: leading and trailing characters of \<open>chars\<close> removed.\<close>

definition str_strip :: "string \<Rightarrow> string \<Rightarrow> string" where
  "str_strip chars s = rev (dropWhile (\<lambda>c. c \<in> set chars) (rev (dropWhile (\<lambda>c. c \<in> set chars) s)))"

definition clean_itemset :: "string \<Rightarrow> string" where
  "clean_itemset s = str_strip ''(){}'' (str_remove ''frozenset'' s)"

definition clean_rule :: "rule \<Rightarrow> rule" where
  "clean_rule r = r\<lparr>antecedents := clean_itemset (antecedents r),
                    consequents := clean_itemset (consequents r)\<rparr>"

datatype rules_view = RulesTable "rule list" | NoRulesWarning

text \<open>
  The \<^verbatim>\<open>try\<close> statement. Its argument is the outcome of \<^verbatim>\<open>pd.read_csv("rules_sorted.csv")\<close>.
  \<^verbatim>\<open>except FileNotFoundError\<close> turns that one exception into the warning; any other
  exception leaves the statement.
\<close>

definition association_rules :: "pyexc + rule list \<Rightarrow> pyexc + rules_view" where
  "association_rules read_rules =
     (case read_rules of
        Inr rules \<Rightarrow> Inr (RulesTable (take 10 (map clean_rule rules)))
      | Inl e \<Rightarrow> if e = FileNotFoundError then Inr NoRulesWarning else Inl e)"

subsection \<open>The script\<close>

text \<open>
  What the script runs on: the outcome of each of its three \<^verbatim>\<open>pd.read_csv\<close> calls and
  the two library calls.
\<close>

record 'c env =
  clothing_retail_300_csv :: "pyexc + transaction list"
  rfm_with_clusters_csv :: "pyexc + 'c customer list"
  rules_sorted_csv :: "pyexc + rule list"
  scaler_fit_transform :: "matrix \<Rightarrow> pyexc + matrix"
  pca_fit_transform :: "matrix \<Rightarrow> pyexc + (real \<times> real) list"

text \<open>The values of the three select boxes.\<close>

record 'c selection =
  country :: string
  season :: string
  selected_cluster :: 'c

text \<open>What a run that reaches its last line has handed to the page.\<close>

record 'c page =
  shown_filtered_rfm :: "'c customer list"
  shown_metrics :: segment_stats
  shown_pca_df :: "'c pca_point list"
  shown_top_categories :: "(string \<times> nat) list"
  shown_size_counts :: "(string \<times> pyfloat) list"
  shown_gender_counts :: "(string \<times> nat) list"
  shown_seasonal_revenue :: "(string \<times> pyfloat) list"
  shown_rules :: rules_view
  download :: "'c customer list"

text \<open>
  The script in statement order: the two reads (lines 40 and 41), the segment, the
  projection, the breakdowns, the rules. The first exception that no handler catches ends
  the run.
\<close>

definition run :: "'c env \<Rightarrow> 'c selection \<Rightarrow> pyexc + 'c page" where
  "run env sel =
     (case clothing_retail_300_csv env of
        Inl e \<Rightarrow> Inl e
      | Inr df \<Rightarrow>
     (case rfm_with_clusters_csv env of
        Inl e \<Rightarrow> Inl e
      | Inr rfm \<Rightarrow>
     (case project (scaler_fit_transform env) (pca_fit_transform env) rfm of
        Inl e \<Rightarrow> Inl e
      | Inr points \<Rightarrow>
     (case association_rules (rules_sorted_csv env) of
        Inl e \<Rightarrow> Inl e
      | Inr rules \<Rightarrow>
          Inr \<lparr>shown_filtered_rfm = filtered_rfm rfm (selected_cluster sel),
               shown_metrics = summarize rfm (selected_cluster sel),
               shown_pca_df = points,
               shown_top_categories = top_categories (filtered_df df (country sel) (season sel)),
               shown_size_counts = size_counts (filtered_df df (country sel) (season sel)),
               shown_gender_counts = gender_counts (filtered_df df (country sel) (season sel)),
               shown_seasonal_revenue = seasonal_revenue df,
               shown_rules = rules,
               download = rfm\<rparr>))))"

subsection \<open>The same statements on a store (lines 54 and 64 to 69)\<close>

text \<open>
  For the statements about what the script leaves unchanged, the variables of lines 54
  to 69 are references into a store of objects. An expression that builds a frame or an
  array allocates a new object at the end of the store; \<^verbatim>\<open>pca_df["Cluster"] = ...\<close> is the
  one statement that writes into an object that exists, the one \<^verbatim>\<open>pca_df\<close> refers to.
\<close>

datatype 'c obj =
    RfmFrame "'c customer list"
  | Array matrix
  | CoordArray "(real \<times> real) list"
  | CoordFrame "(real \<times> real) list"
  | PcaFrame "'c pca_point list"

text \<open>
  The store and the variables. \<^verbatim>\<open>rfm\<close> is bound since line 41; the other four are unbound
  (\<open>None\<close>) until their statement has run.
\<close>

record 'c state =
  heap :: "'c obj list"
  var_rfm :: nat
  var_filtered_rfm :: "nat option"
  var_X :: "nat option"
  var_pca_coords :: "nat option"
  var_pca_df :: "nat option"

definition obj_at :: "'c state \<Rightarrow> nat \<Rightarrow> 'c obj option" where
  "obj_at s a = (if a < length (heap s) then Some (heap s ! a) else None)"

text \<open>The table \<^verbatim>\<open>rfm\<close> refers to; anything else there is not a frame with these columns.\<close>

definition rfm_table :: "'c state \<Rightarrow> pyexc + 'c customer list" where
  "rfm_table s = (case obj_at s (var_rfm s) of Some (RfmFrame rows) \<Rightarrow> Inr rows | _ \<Rightarrow> Inl TypeError)"

text \<open>
  A statement maps a state to the state it reaches and the exception it raised, if any.
  Line 54: boolean indexing builds a new frame.
\<close>

definition line54 :: "'c \<Rightarrow> 'c state \<Rightarrow> pyexc option \<times> 'c state" where
  "line54 l s =
     (case rfm_table s of
        Inl e \<Rightarrow> (Some e, s)
      | Inr rows \<Rightarrow>
          (None, s\<lparr>heap := heap s @ [RfmFrame (filtered_rfm rows l)],
                   var_filtered_rfm := Some (length (heap s))\<rparr>))"

text \<open>
  Line 65: the column selection \<^verbatim>\<open>rfm[[...]]\<close> builds a new frame, which is what the
  scaler receives; its result is a new array.
\<close>

definition line65 :: "(matrix \<Rightarrow> pyexc + matrix) \<Rightarrow> 'c state \<Rightarrow> pyexc option \<times> 'c state" where
  "line65 scaler s =
     (case rfm_table s of
        Inl e \<Rightarrow> (Some e, s)
      | Inr rows \<Rightarrow>
          (let s1 = s\<lparr>heap := heap s @ [Array (features rows)]\<rparr>
           in case scaler (features rows) of
                Inl e \<Rightarrow> (Some e, s1)
              | Inr X \<Rightarrow> (None, s1\<lparr>heap := heap s1 @ [Array X], var_X := Some (length (heap s1))\<rparr>)))"

text \<open>Line 67: the projection receives the array \<^verbatim>\<open>X\<close> refers to; its result is a new array.\<close>

definition line67 ::
  "(matrix \<Rightarrow> pyexc + (real \<times> real) list) \<Rightarrow> 'c state \<Rightarrow> pyexc option \<times> 'c state" where
  "line67 pca s =
     (case var_X s of
        None \<Rightarrow> (Some NameError, s)
      | Some a \<Rightarrow>
          (case obj_at s a of
             Some (Array X) \<Rightarrow>
               (case pca X of
                  Inl e \<Rightarrow> (Some e, s)
                | Inr cs \<Rightarrow>
                    (None, s\<lparr>heap := heap s @ [CoordArray cs],
                             var_pca_coords := Some (length (heap s))\<rparr>))
           | _ \<Rightarrow> (Some TypeError, s)))"

text \<open>Line 68: a new frame with the two coordinate columns.\<close>

definition line68 :: "'c state \<Rightarrow> pyexc option \<times> 'c state" where
  "line68 s =
     (case var_pca_coords s of
        None \<Rightarrow> (Some NameError, s)
      | Some a \<Rightarrow>
          (case obj_at s a of
             Some (CoordArray cs) \<Rightarrow>
               (None, s\<lparr>heap := heap s @ [CoordFrame cs], var_pca_df := Some (length (heap s))\<rparr>)
           | _ \<Rightarrow> (Some TypeError, s)))"

text \<open>
  Line 69: the frame \<^verbatim>\<open>pca_df\<close> refers to gets its third column, in place; \<^verbatim>\<open>rfm\<close> is
  only read.
\<close>

definition line69 :: "'c state \<Rightarrow> pyexc option \<times> 'c state" where
  "line69 s =
     (case rfm_table s of
        Inl e \<Rightarrow> (Some e, s)
      | Inr rows \<Rightarrow>
          (case var_pca_df s of
             None \<Rightarrow> (Some NameError, s)
           | Some a \<Rightarrow>
               (case obj_at s a of
                  Some (CoordFrame cs) \<Rightarrow>
                    (None, s\<lparr>heap := (heap s)[a := PcaFrame (pca_df cs (map Cluster rows))]\<rparr>)
                | _ \<Rightarrow> (Some TypeError, s))))"

text \<open>Statements in sequence; an exception ends the sequence in the state it was raised in.\<close>

fun exec :: "('c state \<Rightarrow> pyexc option \<times> 'c state) list \<Rightarrow> 'c state \<Rightarrow> pyexc option \<times> 'c state" where
  "exec [] s = (None, s)"
| "exec (c # cs) s = (case c s of (Some e, s') \<Rightarrow> (Some e, s') | (None, s') \<Rightarrow> exec cs s')"

definition segment ::
  "'c \<Rightarrow> (matrix \<Rightarrow> pyexc + matrix) \<Rightarrow> (matrix \<Rightarrow> pyexc + (real \<times> real) list) \<Rightarrow>
   ('c state \<Rightarrow> pyexc option \<times> 'c state) list" where
  "segment l scaler pca =
     [line54 l, line65 scaler, line67 pca, line68, line69]"

subsection \<open>The two library calls\<close>

text \<open>
  Modelled from the spec: the code of \<^verbatim>\<open>StandardScaler\<close> and of \<^verbatim>\<open>PCA\<close> is scikit-learn's
  and is not among the sources of the repository. What follows states the standardization
  of section 4.2 of the specification, \<open>(v - mean) / stddev\<close> for each feature, and its
  projection onto the two orthogonal directions of maximal variance, with the details
  scikit-learn documents for the two calls of lines 65 and 67. The functions above keep
  the two calls as parameters; the statements about what the library computes are about
  the definitions of this subsection.
\<close>

definition column :: "matrix \<Rightarrow> nat \<Rightarrow> real list" where
  "column X j = map (\<lambda>row. row ! j) X"

definition average :: "real list \<Rightarrow> real" where
  "average xs = sum_list xs / real (length xs)"

text \<open>
  The mean and the variance that \<^verbatim>\<open>StandardScaler\<close> fits to a feature: the variance divides
  by the number of records.
\<close>

definition scaler_mean :: "matrix \<Rightarrow> nat \<Rightarrow> real" where
  "scaler_mean X j = average (column X j)"

definition scaler_var :: "matrix \<Rightarrow> nat \<Rightarrow> real" where
  "scaler_var X j = average (map (\<lambda>x. (x - scaler_mean X j)\<^sup>2) (column X j))"

text \<open>
  The scaling factor: the standard deviation, and 1 where the standard deviation is zero
  (the documented rule for a feature of zero variance).
\<close>

definition scaler_scale :: "matrix \<Rightarrow> nat \<Rightarrow> real" where
  "scaler_scale X j = (let s = sqrt (scaler_var X j) in if s = 0 then 1 else s)"

text \<open>
  The division of two floats of an array: a zero divisor gives no number. In the
  standardization a zero standard deviation goes with a zero dividend, and 0 / 0 is NaN.
\<close>

definition true_divide :: "real \<Rightarrow> real \<Rightarrow> pyfloat" where
  "true_divide a b = (if b = 0 then NaN else Num (a / b))"

text \<open>
  Modelled from the spec: \<^verbatim>\<open>StandardScaler().fit_transform(X)\<close>, the standardization step.
  An array with no row is refused with \<open>ValueError\<close>; otherwise every cell becomes
  \<open>(v - mean) / scale\<close> of its feature.
\<close>

definition StandardScaler_fit_transform :: "matrix \<Rightarrow> pyexc + pyfloat list list" where
  "StandardScaler_fit_transform X =
     (if X = [] then Inl ValueError
      else Inr (map (\<lambda>row. map (\<lambda>j. true_divide (row ! j - scaler_mean X j) (scaler_scale X j))
                              [0..<length row]) X))"

text \<open>
  Modelled from the spec: the check \<^verbatim>\<open>PCA.fit_transform\<close> makes of the array it is given. An
  array that holds NaN is refused with \<open>ValueError\<close>; otherwise it is an array of numbers.
\<close>

fun finite_cells :: "pyfloat list \<Rightarrow> real list option" where
  "finite_cells [] = Some []"
| "finite_cells (NaN # zs) = None"
| "finite_cells (Num x # zs) = map_option ((#) x) (finite_cells zs)"

fun finite_rows :: "pyfloat list list \<Rightarrow> matrix option" where
  "finite_rows [] = Some []"
| "finite_rows (r # rs) =
     (case finite_cells r of None \<Rightarrow> None | Some xs \<Rightarrow> map_option ((#) xs) (finite_rows rs))"

definition check_array :: "pyfloat list list \<Rightarrow> pyexc + matrix" where
  "check_array Z = (case finite_rows Z of None \<Rightarrow> Inl ValueError | Some M \<Rightarrow> Inr M)"

text \<open>
  Line 65 as the first parameter of \<open>project\<close>: the array of the scaler as the projection
  accepts it.
\<close>

definition standard_scaled :: "matrix \<Rightarrow> pyexc + matrix" where
  "standard_scaled X =
     (case StandardScaler_fit_transform X of Inl e \<Rightarrow> Inl e | Inr Z \<Rightarrow> check_array Z)"

text \<open>
  The numbers of the scaler's array, written with the division of the reals; the scaling
  factor is never zero, so this is the same array (\<open>scaler_returns_numbers\<close> below).
\<close>

definition standardized :: "matrix \<Rightarrow> matrix" where
  "standardized X =
     map (\<lambda>row. map (\<lambda>j. (row ! j - scaler_mean X j) / scaler_scale X j) [0..<length row]) X"

text \<open>
  Modelled from the spec: the least number of records of \<^verbatim>\<open>PCA(n_components=2)\<close>. The
  number of components must not exceed the number of rows of the array; an array with
  fewer than 2 rows is refused with \<open>ValueError\<close>.
\<close>

definition pca_refuses_short :: "(matrix \<Rightarrow> pyexc + (real \<times> real) list) \<Rightarrow> bool" where
  "pca_refuses_short pca \<longleftrightarrow> (\<forall>X. length X < 2 \<longrightarrow> pca X = Inl ValueError)"

text \<open>
  The projection of the rows onto a direction: the rows are centred on the mean of each
  feature and multiplied with the direction.
\<close>

definition dot :: "real list \<Rightarrow> real list \<Rightarrow> real" where
  "dot u v = sum_list (map2 (*) u v)"

definition n_features :: "matrix \<Rightarrow> nat" where
  "n_features X = (case X of [] \<Rightarrow> 0 | row # _ \<Rightarrow> length row)"

definition centered :: "matrix \<Rightarrow> matrix" where
  "centered X = map (\<lambda>row. map (\<lambda>j. row ! j - average (column X j)) [0..<length row]) X"

definition scores :: "matrix \<Rightarrow> real list \<Rightarrow> real list" where
  "scores X v = map (\<lambda>row. dot row v) (centered X)"

text \<open>
  The variance of a coordinate across the points (the divisor is the number of points less
  one, as for the explained variance of the library), and a direction of length one.
\<close>

definition variance :: "real list \<Rightarrow> real" where
  "variance xs = sum_list (map (\<lambda>x. (x - average xs)\<^sup>2) xs) / (real (length xs) - 1)"

definition unit_direction :: "matrix \<Rightarrow> real list \<Rightarrow> bool" where
  "unit_direction X v \<longleftrightarrow> length v = n_features X \<and> dot v v = 1"

text \<open>
  Modelled from the spec: the projection of section 4.2, step 2. The coordinates are the
  projections onto two orthogonal directions of maximal variance: the first has the
  greatest variance among all directions, the second the greatest among the directions
  orthogonal to the first.
\<close>

definition principal_projection :: "matrix \<Rightarrow> (real \<times> real) list \<Rightarrow> bool" where
  "principal_projection X coords \<longleftrightarrow>
     (\<exists>v1 v2. unit_direction X v1 \<and> unit_direction X v2 \<and> dot v1 v2 = 0
        \<and> (\<forall>u. unit_direction X u \<longrightarrow> variance (scores X u) \<le> variance (scores X v1))
        \<and> (\<forall>u. unit_direction X u \<and> dot u v1 = 0
               \<longrightarrow> variance (scores X u) \<le> variance (scores X v2))
        \<and> coords = zip (scores X v1) (scores X v2))"

text \<open>
  A function for line 67 computes this projection when every array it returns is one.
\<close>

definition pca_maximal_variance :: "(matrix \<Rightarrow> pyexc + (real \<times> real) list) \<Rightarrow> bool" where
  "pca_maximal_variance pca \<longleftrightarrow> (\<forall>X coords. pca X = Inr coords \<longrightarrow> principal_projection X coords)"


subsection \<open>Inputs for the examples\<close>

text \<open>
  Two functions to run the script on where a statement is evaluated at a concrete input.
  They refuse with \<open>ValueError\<close> what scikit-learn refuses (\<^verbatim>\<open>StandardScaler\<close> an array with
  no row, \<^verbatim>\<open>PCA(n_components=2)\<close> an array with fewer than two rows) and otherwise return
  the array, or its first two columns: the numbers stand for no computation of the
  library. The general statements below are about any two functions, or about the
  library calls as the subsection above models them.
\<close>

definition demo_scaler :: "matrix \<Rightarrow> pyexc + matrix" where
  "demo_scaler X = (if X = [] then Inl ValueError else Inr X)"

definition demo_pca :: "matrix \<Rightarrow> pyexc + (real \<times> real) list" where
  "demo_pca X = (if length X < 2 then Inl ValueError else Inr (map (\<lambda>row. (row ! 0, row ! 1)) X))"

definition demo_rfm :: "int customer list" where
  "demo_rfm =
     [\<lparr>Recency = 5, Frequency = 2, Monetary = 10, Cluster = 0\<rparr>,
      \<lparr>Recency = 40, Frequency = 1, Monetary = 500, Cluster = 1\<rparr>,
      \<lparr>Recency = 7, Frequency = 3, Monetary = 20, Cluster = 0\<rparr>,
      \<lparr>Recency = 9, Frequency = 4, Monetary = 30, Cluster = 0\<rparr>]"

definition demo_df :: "transaction list" where
  "demo_df =
     [\<lparr>Country = ''UK'', Season = ''Winter'', Category = ''Coats'', Size = ''M'',
       Gender = ''F'', LineTotal = 120\<rparr>,
      \<lparr>Country = ''UK'', Season = ''Summer'', Category = ''Shirts'', Size = ''S'',
       Gender = ''M'', LineTotal = 30\<rparr>,
      \<lparr>Country = ''France'', Season = ''Winter'', Category = ''Coats'', Size = ''L'',
       Gender = ''F'', LineTotal = 150\<rparr>]"

definition demo_rules :: "rule list" where
  "demo_rules =
     [\<lparr>antecedents = ''frozenset({Coats})'', consequents = ''frozenset({Scarves})'',
       support = 1 / 10, confidence = 1 / 2, lift = 2\<rparr>]"

definition demo_env :: "int env" where
  "demo_env =
     \<lparr>clothing_retail_300_csv = Inr demo_df,
      rfm_with_clusters_csv = Inr demo_rfm,
      rules_sorted_csv = Inr demo_rules,
      scaler_fit_transform = demo_scaler,
      pca_fit_transform = demo_pca\<rparr>"

definition demo_sel :: "int selection" where
  "demo_sel = \<lparr>country = ''UK'', season = ''Winter'', selected_cluster = 0\<rparr>"

definition demo_state :: "int state" where
  "demo_state =
     \<lparr>heap = [RfmFrame demo_rfm], var_rfm = 0, var_filtered_rfm = None, var_X = None,
      var_pca_coords = None, var_pca_df = None\<rparr>"

text \<open>
  A table of two records whose frequency is constant, and a function for line 67 that
  returns the principal projection of its standardized array and refuses every other
  array.
\<close>

definition two_rfm :: "int customer list" where
  "two_rfm =
     [\<lparr>Recency = 1, Frequency = 1, Monetary = 1, Cluster = 0\<rparr>,
      \<lparr>Recency = 3, Frequency = 1, Monetary = 5, Cluster = 1\<rparr>]"

definition two_axes :: "real list \<times> real list" where
  "two_axes = ([1 / sqrt 2, 0, 1 / sqrt 2], [0, 1, 0])"

definition two_pca :: "matrix \<Rightarrow> pyexc + (real \<times> real) list" where
  "two_pca X =
     (if X = [[- 1, 0, - 1], [1, 0, 1]]
      then Inr (zip (scores X (fst two_axes)) (scores X (snd two_axes)))
      else Inl ValueError)"

section \<open>Properties\<close>

subsection \<open>Segment summary\<close>

text \<open>
  Filtering and then counting or summing is counting or summing over the positions that
  carry the label.
\<close>

lemma rows_with_label_snoc:
  "rows_with_label (rs @ [r]) l =
     (if Cluster r = l then insert (length rs) (rows_with_label rs l) else rows_with_label rs l)"
  by (auto simp: rows_with_label_def nth_append less_Suc_eq)

lemma finite_rows_with_label: "finite (rows_with_label rfm l)"
  by (simp add: rows_with_label_def)

lemma length_not_in_rows: "length rs \<notin> rows_with_label rs l"
  by (simp add: rows_with_label_def)

lemma length_filtered_rfm: "length (filtered_rfm rfm l) = card (rows_with_label rfm l)"
proof (induction rfm rule: rev_induct)
  case Nil
  show ?case by (simp add: filtered_rfm_def rows_with_label_def)
next
  case (snoc r rs)
  then show ?case
    by (simp add: filtered_rfm_def rows_with_label_snoc finite_rows_with_label length_not_in_rows)
qed

lemma sum_filtered_rfm:
  "sum_list (map f (filtered_rfm rfm l)) = (\<Sum>i\<in>rows_with_label rfm l. f (rfm ! i))"
proof (induction rfm rule: rev_induct)
  case Nil
  show ?case by (simp add: filtered_rfm_def rows_with_label_def)
next
  case (snoc r rs)
  have eq: "(\<Sum>i\<in>rows_with_label rs l. f ((rs @ [r]) ! i)) = (\<Sum>i\<in>rows_with_label rs l. f (rs ! i))"
    by (rule sum.cong) (auto simp: rows_with_label_def nth_append)
  from snoc show ?case
    by (simp add: filtered_rfm_def rows_with_label_snoc finite_rows_with_label
          length_not_in_rows eq add.commute)
qed

lemma filtered_rfm_present: "l \<in> Cluster ` set rfm \<Longrightarrow> filtered_rfm rfm l \<noteq> []"
  by (auto simp: filtered_rfm_def filter_empty_conv)

lemma filtered_rfm_absent: "l \<notin> Cluster ` set rfm \<Longrightarrow> filtered_rfm rfm l = []"
  by (auto simp: filtered_rfm_def filter_empty_conv)

text \<open>
  Claim C1. For a non-empty table and a label that occurs in it, the count is the number
  of records with that label, and the three averages are the arithmetic means of recency,
  frequency and monetary over exactly the records with that label: the sum over their
  positions divided by their number.
\<close>

theorem summarize_count_and_means:
  assumes "rfm \<noteq> []" and "l \<in> Cluster ` set rfm"
  shows "count (summarize rfm l) = card (rows_with_label rfm l)
       \<and> avgRecency (summarize rfm l) =
           Num ((\<Sum>i\<in>rows_with_label rfm l. Recency (rfm ! i)) / real (card (rows_with_label rfm l)))
       \<and> avgFrequency (summarize rfm l) =
           Num ((\<Sum>i\<in>rows_with_label rfm l. Frequency (rfm ! i)) / real (card (rows_with_label rfm l)))
       \<and> avgMonetary (summarize rfm l) =
           Num ((\<Sum>i\<in>rows_with_label rfm l. Monetary (rfm ! i)) / real (card (rows_with_label rfm l)))"
  using filtered_rfm_present[OF assms(2)]
  by (simp add: summarize_def Let_def mean_def length_filtered_rfm sum_filtered_rfm)

text \<open>
  The fixture of the specification: the three records of segment 0 have monetary values
  10, 20 and 30, and the average is 20.
\<close>

theorem summarize_count_and_means_witness:
  "demo_rfm \<noteq> [] \<and> (0::int) \<in> Cluster ` set demo_rfm
   \<and> count (summarize demo_rfm 0) = card (rows_with_label demo_rfm 0)
   \<and> count (summarize demo_rfm 0) = 3
   \<and> avgMonetary (summarize demo_rfm 0) =
       Num ((\<Sum>i\<in>rows_with_label demo_rfm 0. Monetary (demo_rfm ! i))
            / real (card (rows_with_label demo_rfm 0)))
   \<and> avgMonetary (summarize demo_rfm 0) = Num 20"
proof -
  have h1: "demo_rfm \<noteq> []" by (simp add: demo_rfm_def)
  have h2: "(0::int) \<in> Cluster ` set demo_rfm" by (simp add: demo_rfm_def)
  have c: "count (summarize demo_rfm 0) = 3" "avgMonetary (summarize demo_rfm 0) = Num 20"
    by (simp_all add: summarize_def demo_rfm_def filtered_rfm_def mean_def)
  from summarize_count_and_means[OF h1 h2] c h1 h2 show ?thesis by blast
qed

text \<open>
  Claim C5. For a label that no record of the table carries, the summary has count 0 and
  three not-a-number averages; being a value of the summary type, it is no exception.
\<close>

theorem summarize_absent_label:
  assumes "l \<notin> Cluster ` set rfm"
  shows "summarize rfm l = \<lparr>count = 0, avgRecency = NaN, avgFrequency = NaN, avgMonetary = NaN\<rparr>"
  using filtered_rfm_absent[OF assms] by (simp add: summarize_def mean_def)

theorem summarize_absent_label_witness:
  "(7::int) \<notin> Cluster ` set demo_rfm
   \<and> summarize demo_rfm 7 = \<lparr>count = 0, avgRecency = NaN, avgFrequency = NaN, avgMonetary = NaN\<rparr>"
proof -
  have h: "(7::int) \<notin> Cluster ` set demo_rfm" by (simp add: demo_rfm_def)
  from summarize_absent_label[OF h] h show ?thesis by simp
qed

subsection \<open>Projection\<close>

lemma length_pca_df: "length (pca_df cs ls) = length cs"
  by (simp add: pca_df_def)

lemma nth_pca_df:
  "i < length cs \<Longrightarrow>
   pca_df cs ls ! i =
     \<lparr>PC1 = fst (cs ! i), PC2 = snd (cs ! i),
      PCluster = (if i < length ls then Some (ls ! i) else None)\<rparr>"
  by (simp add: pca_df_def)

text \<open>
  Claim C2. When the two library calls return, each an array with as many rows as the
  array it received (the shape \<^verbatim>\<open>fit_transform\<close> documents), \<open>project\<close> returns one
  point per record of the table, in table order: point \<open>i\<close> holds row \<open>i\<close> of the
  projected coordinates and the label of record \<open>i\<close>.
\<close>

theorem project_one_point_per_record:
  assumes rows_scaler: "\<And>A B. scaler A = Inr B \<Longrightarrow> length B = length A"
      and rows_pca: "\<And>A B. pca A = Inr B \<Longrightarrow> length B = length A"
      and scaled: "scaler (features rfm) = Inr X"
      and projected: "pca X = Inr coords"
  shows "\<exists>pts. project scaler pca rfm = Inr pts \<and> length pts = length rfm
           \<and> (\<forall>i<length rfm. PCluster (pts ! i) = Some (Cluster (rfm ! i))
                  \<and> PC1 (pts ! i) = fst (coords ! i) \<and> PC2 (pts ! i) = snd (coords ! i))"
proof -
  have "length X = length rfm"
    using rows_scaler[OF scaled] by (simp add: features_def)
  then have len: "length coords = length rfm"
    using rows_pca[OF projected] by simp
  have run: "project scaler pca rfm = Inr (pca_df coords (map Cluster rfm))"
    by (simp add: project_def scaled projected)
  show ?thesis
    unfolding run using len by (simp add: length_pca_df nth_pca_df)
qed

lemma demo_scaler_rows: "demo_scaler A = Inr B \<Longrightarrow> length B = length A"
  by (auto simp: demo_scaler_def split: if_splits)

lemma demo_pca_rows: "demo_pca A = Inr B \<Longrightarrow> length B = length A"
  by (auto simp: demo_pca_def split: if_splits)

theorem project_one_point_per_record_witness:
  "demo_scaler (features demo_rfm) = Inr (features demo_rfm)
   \<and> demo_pca (features demo_rfm) = Inr [(5, 2), (40, 1), (7, 3), (9, 4)]
   \<and> (\<exists>pts. project demo_scaler demo_pca demo_rfm = Inr pts \<and> length pts = length demo_rfm
           \<and> (\<forall>i<length demo_rfm. PCluster (pts ! i) = Some (Cluster (demo_rfm ! i))
                  \<and> PC1 (pts ! i) = fst ([(5, 2), (40, 1), (7, 3), (9, 4 :: real)] ! i)
                  \<and> PC2 (pts ! i) = snd ([(5, 2), (40, 1), (7, 3), (9 :: real, 4)] ! i)))"
proof -
  have s: "demo_scaler (features demo_rfm) = Inr (features demo_rfm)"
    by (simp add: demo_scaler_def features_def demo_rfm_def)
  have p: "demo_pca (features demo_rfm) = Inr [(5, 2), (40, 1), (7, 3), (9, 4)]"
    by (simp add: demo_pca_def features_def demo_rfm_def)
  note r = project_one_point_per_record[of demo_scaler demo_pca, OF demo_scaler_rows demo_pca_rows s p]
  show ?thesis by (rule conjI[OF s conjI[OF p r]])
qed

subsection \<open>Standardization\<close>

text \<open>
  The scaling factor is never zero, so no cell of the scaler's array is NaN and the
  projection receives an array of numbers with as many rows as the table.
\<close>

lemma scaler_scale_nonzero: "scaler_scale X j \<noteq> 0"
  by (simp add: scaler_scale_def Let_def)

lemma finite_cells_Num: "finite_cells (map Num xs) = Some xs"
  by (induction xs) simp_all

lemma finite_rows_Num: "finite_rows (map (map Num) M) = Some M"
  by (induction M) (simp_all add: finite_cells_Num)

lemma scaler_returns_numbers:
  "X \<noteq> [] \<Longrightarrow> StandardScaler_fit_transform X = Inr (map (map Num) (standardized X))"
  by (simp add: StandardScaler_fit_transform_def standardized_def true_divide_def
        scaler_scale_nonzero comp_def)

lemma standard_scaled_returns: "X \<noteq> [] \<Longrightarrow> standard_scaled X = Inr (standardized X)"
  by (simp add: standard_scaled_def scaler_returns_numbers check_array_def finite_rows_Num)

lemma standard_scaled_empty: "standard_scaled [] = Inl ValueError"
  by (simp add: standard_scaled_def StandardScaler_fit_transform_def)

lemma length_standardized: "length (standardized X) = length X"
  by (simp add: standardized_def)

text \<open>
  A feature has a zero standard deviation exactly when its values are identical: they are
  all the mean.
\<close>

lemma zero_std_values:
  assumes "X \<noteq> []" and "sqrt (scaler_var X j) = 0" and "x \<in> set (column X j)"
  shows "x = scaler_mean X j"
proof -
  have n: "0 < length (column X j)" using assms(1) by (simp add: column_def)
  from assms(2) have "scaler_var X j = 0" by simp
  with n have s: "sum_list (map (\<lambda>x. (x - scaler_mean X j)\<^sup>2) (column X j)) = 0"
    by (simp add: scaler_var_def average_def)
  have "\<forall>y\<in>set (map (\<lambda>x. (x - scaler_mean X j)\<^sup>2) (column X j)). y = 0"
    using s by (subst (asm) sum_list_nonneg_eq_0_iff) auto
  with assms(3) have "(x - scaler_mean X j)\<^sup>2 = 0" by simp
  then show ?thesis by simp
qed

lemma nth_standardized:
  "i < length X \<Longrightarrow> j < length (X ! i) \<Longrightarrow>
   standardized X ! i ! j = (X ! i ! j - scaler_mean X j) / scaler_scale X j"
  by (simp add: standardized_def)

lemma nth_scaler_output:
  "i < length X \<Longrightarrow> j < length (X ! i) \<Longrightarrow>
   map (map Num) (standardized X) ! i ! j = Num (standardized X ! i ! j)"
  by (simp add: standardized_def)

lemma identical_values_zero_std:
  assumes "X \<noteq> []" and "\<forall>x\<in>set (column X j). x = c"
  shows "sqrt (scaler_var X j) = 0"
proof -
  have n: "length (column X j) = length X" by (simp add: column_def)
  from assms(2) have col: "column X j = replicate (length X) c"
    using replicate_length_same[of "column X j" c] by (simp add: n)
  have m: "scaler_mean X j = c"
    using assms(1) by (simp add: scaler_mean_def average_def col sum_list_replicate)
  show ?thesis
    by (simp add: scaler_var_def average_def m col sum_list_replicate)
qed

text \<open>
  Claim C4. For a table in which a feature has zero standard deviation, the scaler does
  not divide by that standard deviation: the scaling factor of the feature is 1, every
  value of the feature becomes the number 0 in the scaler's array (no cell of the feature
  is NaN), and that array of numbers is what the projection receives.
\<close>

theorem standardization_of_constant_feature:
  assumes "rfm \<noteq> []" and "j < 3" and "sqrt (scaler_var (features rfm) j) = 0"
  shows "scaler_scale (features rfm) j = 1
       \<and> (\<exists>Z X. StandardScaler_fit_transform (features rfm) = Inr Z
              \<and> (\<forall>i<length rfm. Z ! i ! j = Num 0)
              \<and> standard_scaled (features rfm) = Inr X
              \<and> (\<forall>i<length rfm. X ! i ! j = 0)
              \<and> project standard_scaled pca rfm =
                  (case pca X of Inl e \<Rightarrow> Inl e
                   | Inr pca_coords \<Rightarrow> Inr (pca_df pca_coords (map Cluster rfm))))"
proof -
  let ?F = "features rfm"
  have ne: "?F \<noteq> []" using assms(1) by (simp add: features_def)
  have len: "length ?F = length rfm" by (simp add: features_def)
  have row: "\<And>i. i < length rfm \<Longrightarrow> j < length (?F ! i)"
    using assms(2) by (simp add: features_def)
  have scale: "scaler_scale ?F j = 1"
    using assms(3) by (simp add: scaler_scale_def)
  have zero: "standardized ?F ! i ! j = 0" if "i < length rfm" for i
  proof -
    from that have "?F ! i ! j \<in> set (column ?F j)"
      by (auto simp: column_def len intro!: image_eqI[where x = "?F ! i"])
    from zero_std_values[OF ne assms(3) this] show ?thesis
      using that row[OF that] by (simp add: nth_standardized len)
  qed
  have cells: "map (map Num) (standardized ?F) ! i ! j = Num 0" if "i < length rfm" for i
    using that row[OF that] zero[OF that] by (simp add: nth_scaler_output len)
  have p: "project standard_scaled pca rfm =
             (case pca (standardized ?F) of Inl e \<Rightarrow> Inl e
              | Inr pca_coords \<Rightarrow> Inr (pca_df pca_coords (map Cluster rfm)))"
    by (simp add: project_def standard_scaled_returns[OF ne])
  show ?thesis
    using scale scaler_returns_numbers[OF ne] standard_scaled_returns[OF ne] cells zero p
    by blast
qed

lemma two_rfm_scaled: "standard_scaled (features two_rfm) = Inr [[- 1, 0, - 1], [1, 0, 1]]"
  by (simp add: standard_scaled_returns features_def two_rfm_def standardized_def scaler_mean_def
        scaler_var_def scaler_scale_def column_def average_def power2_eq_square)

lemma two_rfm_scaler:
  "StandardScaler_fit_transform (features two_rfm)
     = Inr [[Num (- 1), Num 0, Num (- 1)], [Num 1, Num 0, Num 1]]"
  by (simp add: StandardScaler_fit_transform_def true_divide_def features_def two_rfm_def
        scaler_mean_def scaler_var_def scaler_scale_def column_def average_def power2_eq_square)

theorem standardization_of_constant_feature_witness:
  "two_rfm \<noteq> [] \<and> (1::nat) < 3 \<and> sqrt (scaler_var (features two_rfm) 1) = 0
   \<and> scaler_scale (features two_rfm) 1 = 1
   \<and> StandardScaler_fit_transform (features two_rfm)
       = Inr [[Num (- 1), Num 0, Num (- 1)], [Num 1, Num 0, Num 1]]
   \<and> standard_scaled (features two_rfm) = Inr [[- 1, 0, - 1], [1, 0, 1]]"
proof -
  have h1: "two_rfm \<noteq> []" by (simp add: two_rfm_def)
  have h2: "(1::nat) < 3" by simp
  have h3: "sqrt (scaler_var (features two_rfm) 1) = 0"
    by (simp add: features_def two_rfm_def scaler_var_def scaler_mean_def column_def average_def)
  note t = standardization_of_constant_feature[OF h1 h2 h3]
  show ?thesis
    by (rule conjI[OF h1 conjI[OF h2 conjI[OF h3 conjI[OF conjunct1[OF t]
          conjI[OF two_rfm_scaler two_rfm_scaled]]]]])
qed

subsection \<open>Tables with fewer than 2 records\<close>

text \<open>
  Claim C3, as stated, fails: on the empty table the exception that ends the projection
  is the \<open>ValueError\<close> of the scaler, and not \<open>InsufficientDataError\<close>.
\<close>

theorem project_empty_table_raises_ValueError:
  "project standard_scaled demo_pca ([] :: int customer list) = Inl ValueError
   \<and> project standard_scaled demo_pca ([] :: int customer list) \<noteq> Inl InsufficientDataError"
  by (simp add: project_def features_def standard_scaled_empty)

text \<open>
  Claim C3, amended. For a table with fewer than 2 records \<open>project\<close> fails instead of
  returning coordinates, with the \<open>ValueError\<close> of the library: of the scaler on the empty
  table, of the projection with two components on a table of one record.
\<close>

theorem project_short_table_raises_ValueError:
  assumes "length rfm < 2" and "pca_refuses_short pca"
  shows "project standard_scaled pca rfm = Inl ValueError"
proof (cases "rfm = []")
  case True
  then show ?thesis by (simp add: project_def features_def standard_scaled_empty)
next
  case False
  then have ne: "features rfm \<noteq> []" by (simp add: features_def)
  have "length (standardized (features rfm)) < 2"
    using assms(1) by (simp add: length_standardized features_def)
  with assms(2) have "pca (standardized (features rfm)) = Inl ValueError"
    by (simp add: pca_refuses_short_def)
  then show ?thesis by (simp add: project_def standard_scaled_returns[OF ne])
qed

lemma demo_pca_refuses_short: "pca_refuses_short demo_pca"
  by (simp add: pca_refuses_short_def demo_pca_def)

lemma one_record_scaled:
  "standard_scaled (features [\<lparr>Recency = 5, Frequency = 2, Monetary = 10, Cluster = 0::int\<rparr>])
     = Inr [[0, 0, 0]]"
  by (simp add: standard_scaled_returns features_def standardized_def scaler_mean_def
        column_def average_def)

theorem project_short_table_raises_ValueError_witness:
  "length [\<lparr>Recency = 5, Frequency = 2, Monetary = 10, Cluster = 0::int\<rparr>] < 2
   \<and> pca_refuses_short demo_pca
   \<and> standard_scaled (features [\<lparr>Recency = 5, Frequency = 2, Monetary = 10, Cluster = 0::int\<rparr>])
       = Inr [[0, 0, 0]]
   \<and> demo_pca [[0, 0, 0]] = Inl ValueError
   \<and> project standard_scaled demo_pca
        [\<lparr>Recency = 5, Frequency = 2, Monetary = 10, Cluster = 0::int\<rparr>] = Inl ValueError"
proof -
  have h: "length [\<lparr>Recency = 5, Frequency = 2, Monetary = 10, Cluster = 0::int\<rparr>] < 2" by simp
  have p: "demo_pca [[0, 0, 0]] = Inl ValueError" by (simp add: demo_pca_def)
  note t = project_short_table_raises_ValueError[OF h demo_pca_refuses_short]
  show ?thesis
    by (rule conjI[OF h conjI[OF demo_pca_refuses_short conjI[OF one_record_scaled conjI[OF p t]]]])
qed

subsection \<open>Variance of the two coordinates\<close>

lemma map_PC1_pca_df: "map PC1 (pca_df cs ls) = map fst cs"
  by (rule nth_equalityI) (simp_all add: pca_df_def)

lemma map_PC2_pca_df: "map PC2 (pca_df cs ls) = map snd cs"
  by (rule nth_equalityI) (simp_all add: pca_df_def)

lemma length_scores: "length (scores X v) = length X"
  by (simp add: scores_def centered_def)

text \<open>
  Claim C6. Whenever \<open>project\<close> returns, with a function for line 67 that computes the
  principal projection, the variance of the first coordinate across the points is at
  least the variance of the second: the second direction is one of the directions among
  which the first has the greatest variance.
\<close>

theorem projection_variance_ordered:
  assumes "pca_maximal_variance pca" and "project scaler pca rfm = Inr pts"
  shows "variance (map PC2 pts) \<le> variance (map PC1 pts)"
proof -
  from assms(2) obtain X coords where
    p: "pca X = Inr coords" and pts: "pts = pca_df coords (map Cluster rfm)"
    by (auto simp: project_def split: sum.splits)
  from assms(1) p have "principal_projection X coords"
    by (simp add: pca_maximal_variance_def)
  then obtain v1 v2 where u2: "unit_direction X v2"
    and top: "\<forall>u. unit_direction X u \<longrightarrow> variance (scores X u) \<le> variance (scores X v1)"
    and c: "coords = zip (scores X v1) (scores X v2)"
    by (auto simp: principal_projection_def)
  have "map PC1 pts = scores X v1" "map PC2 pts = scores X v2"
    by (simp_all add: pts c map_PC1_pca_df map_PC2_pca_df length_scores)
  with top u2 show ?thesis by simp
qed

text \<open>
  On the table of two records the first coordinate has variance 4 and the second
  variance 0.
\<close>

lemma scores_two:
  "scores [[- 1, 0, - 1], [1, 0, 1]] [a, b, c] = [- a - c, a + c]"
  by (simp add: scores_def centered_def column_def average_def dot_def)

lemma variance_two: "variance [- x, x] = 2 * x\<^sup>2"
  by (simp add: variance_def average_def)

lemma variance_scores_two:
  "variance (scores [[- 1, 0, - 1], [1, 0, 1]] [a, b, c]) = 2 * (a + c)\<^sup>2"
proof -
  have "scores [[- 1, 0, - 1], [1, 0, 1]] [a, b, c] = [- (a + c), a + c]"
    by (simp add: scores_two)
  then show ?thesis by (simp only: variance_two)
qed

lemma unit_direction_two:
  "unit_direction [[- 1, 0, - 1], [1, 0, 1]] u \<longleftrightarrow> (\<exists>a b c. u = [a, b, c] \<and> a\<^sup>2 + b\<^sup>2 + c\<^sup>2 = 1)"
  by (auto simp: unit_direction_def n_features_def dot_def length_Suc_conv power2_eq_square
        eval_nat_numeral)

lemma two_pca_principal: "pca_maximal_variance two_pca"
proof -
  let ?X = "[[- 1, 0, - 1], [1, 0, 1 :: real]]"
  let ?v1 = "[1 / sqrt 2, 0, 1 / sqrt 2]" and ?v2 = "[0, 1, 0 :: real]"
  have v1: "variance (scores ?X ?v1) = 4"
    by (simp add: variance_scores_two power2_eq_square field_simps)
  have v2: "variance (scores ?X ?v2) = 0"
    by (simp add: variance_scores_two)
  have half: "1 / sqrt 2 * (1 / sqrt 2) = 1 / (2 :: real)" by simp
  have u1: "unit_direction ?X ?v1"
    by (simp add: unit_direction_def n_features_def dot_def half
          del: times_divide_eq_left times_divide_eq_right divide_divide_eq_left)
  have u2: "unit_direction ?X ?v2"
    by (simp add: unit_direction_def n_features_def dot_def)
  have orth: "dot ?v1 ?v2 = 0" by (simp add: dot_def)
  have top: "variance (scores ?X u) \<le> variance (scores ?X ?v1)" if "unit_direction ?X u" for u
  proof -
    from that obtain a b c where u: "u = [a, b, c]" and n: "a\<^sup>2 + b\<^sup>2 + c\<^sup>2 = 1"
      by (auto simp: unit_direction_two)
    from n have "(a + c)\<^sup>2 = 2 - (a - c)\<^sup>2 - 2 * b\<^sup>2"
      by (simp add: power2_eq_square algebra_simps)
    moreover have "0 \<le> (a - c)\<^sup>2" and "0 \<le> b\<^sup>2" by simp_all
    ultimately have le: "(a + c)\<^sup>2 \<le> 2" by linarith
    have "variance (scores ?X u) = 2 * (a + c)\<^sup>2"
      by (simp only: u variance_scores_two)
    with le v1 show ?thesis by linarith
  qed
  have snd: "variance (scores ?X u) \<le> variance (scores ?X ?v2)"
    if "unit_direction ?X u \<and> dot u ?v1 = 0" for u
  proof -
    from that obtain a b c where u: "u = [a, b, c]"
      by (auto simp: unit_direction_two)
    from that have "(a + c) / sqrt 2 = 0" by (simp add: u dot_def add_divide_distrib)
    then have "a + c = 0" by simp
    then have "variance (scores ?X u) = 0"
      by (simp only: u variance_scores_two) simp
    with v2 show ?thesis by linarith
  qed
  have "principal_projection ?X (zip (scores ?X ?v1) (scores ?X ?v2))"
    unfolding principal_projection_def
    using u1 u2 orth top snd by blast
  then show ?thesis
    by (auto simp: pca_maximal_variance_def two_pca_def two_axes_def split: if_splits)
qed

lemma two_project:
  "project standard_scaled two_pca two_rfm
     = Inr [\<lparr>PC1 = - (2 / sqrt 2), PC2 = 0, PCluster = Some 0\<rparr>,
            \<lparr>PC1 = 2 / sqrt 2, PC2 = 0, PCluster = Some 1\<rparr>]"
proof -
  have l: "map Cluster two_rfm = [0, 1]" by (simp add: two_rfm_def)
  show ?thesis
    by (simp add: project_def two_rfm_scaled two_pca_def two_axes_def scores_two pca_df_def l
          add_divide_distrib)
qed

theorem projection_variance_ordered_witness:
  "pca_maximal_variance two_pca
   \<and> project standard_scaled two_pca two_rfm
       = Inr [\<lparr>PC1 = - (2 / sqrt 2), PC2 = 0, PCluster = Some 0\<rparr>,
              \<lparr>PC1 = 2 / sqrt 2, PC2 = 0, PCluster = Some 1\<rparr>]
   \<and> variance (map PC2 [\<lparr>PC1 = - (2 / sqrt 2), PC2 = 0, PCluster = Some (0::int)\<rparr>,
                         \<lparr>PC1 = 2 / sqrt 2, PC2 = 0, PCluster = Some 1\<rparr>])
       \<le> variance (map PC1 [\<lparr>PC1 = - (2 / sqrt 2), PC2 = 0, PCluster = Some (0::int)\<rparr>,
                            \<lparr>PC1 = 2 / sqrt 2, PC2 = 0, PCluster = Some 1\<rparr>])
   \<and> variance (map PC1 [\<lparr>PC1 = - (2 / sqrt 2), PC2 = 0, PCluster = Some (0::int)\<rparr>,
                         \<lparr>PC1 = 2 / sqrt 2, PC2 = 0, PCluster = Some 1\<rparr>]) = 4
   \<and> variance (map PC2 [\<lparr>PC1 = - (2 / sqrt 2), PC2 = 0, PCluster = Some (0::int)\<rparr>,
                         \<lparr>PC1 = 2 / sqrt 2, PC2 = 0, PCluster = Some 1\<rparr>]) = 0"
proof -
  note t = projection_variance_ordered[OF two_pca_principal two_project]
  have a: "variance (map PC1 [\<lparr>PC1 = - (2 / sqrt 2), PC2 = 0, PCluster = Some (0::int)\<rparr>,
                         \<lparr>PC1 = 2 / sqrt 2, PC2 = 0, PCluster = Some 1\<rparr>]) = 4"
    by (simp add: variance_two power_divide)
  have b: "variance (map PC2 [\<lparr>PC1 = - (2 / sqrt 2), PC2 = 0, PCluster = Some (0::int)\<rparr>,
                         \<lparr>PC1 = 2 / sqrt 2, PC2 = 0, PCluster = Some 1\<rparr>]) = 0"
    by (simp add: variance_def average_def)
  show ?thesis
    by (rule conjI[OF two_pca_principal conjI[OF two_project conjI[OF t conjI[OF a b]]]])
qed

subsection \<open>What the segment and the projection leave unchanged\<close>

text \<open>
  Whatever the outcome, the statements of lines 54 to 69 only add objects to the store
  and leave \<^verbatim>\<open>rfm\<close> bound as it was.
\<close>

lemma segment_frame:
  "exec (segment l scaler pca) s = (r, s') \<Longrightarrow>
     var_rfm s' = var_rfm s \<and> take (length (heap s)) (heap s') = heap s"
  by (auto simp: segment_def line54_def line65_def line67_def line68_def line69_def
        obj_at_def rfm_table_def Let_def nth_append
      split: sum.splits option.splits obj.splits if_splits prod.splits)

text \<open>
  The store model computes what the functions above compute: when both library calls
  return, the run ends without exception, \<^verbatim>\<open>filtered_rfm\<close> refers to the filtered frame
  and \<^verbatim>\<open>pca_df\<close> to the frame of labelled points.
\<close>

lemma segment_computes:
  assumes "var_rfm s < length (heap s)" and "heap s ! var_rfm s = RfmFrame rows"
      and "scaler (features rows) = Inr X" and "pca X = Inr cs"
  shows "fst (exec (segment l scaler pca) s) = None"
    and "var_filtered_rfm (snd (exec (segment l scaler pca) s)) = Some (length (heap s))"
    and "obj_at (snd (exec (segment l scaler pca) s)) (length (heap s))
           = Some (RfmFrame (filtered_rfm rows l))"
    and "var_pca_df (snd (exec (segment l scaler pca) s)) = Some (length (heap s) + 4)"
    and "obj_at (snd (exec (segment l scaler pca) s)) (length (heap s) + 4)
           = Some (PcaFrame (pca_df cs (map Cluster rows)))"
  using assms
  by (simp_all add: segment_def line54_def line65_def line67_def line68_def line69_def
        obj_at_def rfm_table_def Let_def nth_append eval_nat_numeral)

text \<open>
  Claim C8. Running the statements of \<open>summarize\<close> (line 54) and of \<open>project\<close> (lines 64
  to 69), to their end or to the exception that stops them, leaves the input table
  unchanged: \<^verbatim>\<open>rfm\<close> refers to the same object, that object holds the same records (so
  every label is as it was), and no object that existed before is changed.
\<close>

theorem segment_leaves_rfm_unchanged:
  assumes "var_rfm s < length (heap s)"
  shows "var_rfm (snd (exec (segment l scaler pca) s)) = var_rfm s
       \<and> heap (snd (exec (segment l scaler pca) s)) ! var_rfm s = heap s ! var_rfm s
       \<and> take (length (heap s)) (heap (snd (exec (segment l scaler pca) s))) = heap s"
proof -
  obtain r s' where run: "exec (segment l scaler pca) s = (r, s')"
    by (cases "exec (segment l scaler pca) s")
  from segment_frame[OF run] have v: "var_rfm s' = var_rfm s"
    and t: "take (length (heap s)) (heap s') = heap s" by simp_all
  have "heap s' ! var_rfm s = take (length (heap s)) (heap s') ! var_rfm s"
    using assms by simp
  with t have "heap s' ! var_rfm s = heap s ! var_rfm s" by simp
  with v t show ?thesis by (simp add: run)
qed

theorem segment_leaves_rfm_unchanged_witness:
  "var_rfm demo_state < length (heap demo_state)
   \<and> heap demo_state ! var_rfm demo_state = RfmFrame demo_rfm
   \<and> fst (exec (segment 0 demo_scaler demo_pca) demo_state) = None
   \<and> var_rfm (snd (exec (segment 0 demo_scaler demo_pca) demo_state)) = var_rfm demo_state
   \<and> heap (snd (exec (segment 0 demo_scaler demo_pca) demo_state)) ! var_rfm demo_state
       = RfmFrame demo_rfm"
proof -
  have h: "var_rfm demo_state < length (heap demo_state)" by (simp add: demo_state_def)
  have o: "heap demo_state ! var_rfm demo_state = RfmFrame demo_rfm" by (simp add: demo_state_def)
  have x: "demo_scaler (features demo_rfm) = Inr (features demo_rfm)"
    by (simp add: demo_scaler_def features_def demo_rfm_def)
  have p: "demo_pca (features demo_rfm) = Inr [(5, 2), (40, 1), (7, 3), (9, 4)]"
    by (simp add: demo_pca_def features_def demo_rfm_def)
  note f = segment_computes(1)[where scaler = demo_scaler and pca = demo_pca and l = 0, OF h o x p]
  note t = segment_leaves_rfm_unchanged[OF h, of 0 demo_scaler demo_pca]
  from t o have e: "heap (snd (exec (segment 0 demo_scaler demo_pca) demo_state)) ! var_rfm demo_state
       = RfmFrame demo_rfm" by simp
  show ?thesis by (rule conjI[OF h conjI[OF o conjI[OF f conjI[OF conjunct1[OF t] e]]]])
qed

subsection \<open>Exceptions\<close>

text \<open>
  Claim C9. The one handler of the script guards the read of the rules file against
  \<open>FileNotFoundError\<close>, which becomes the warning while the run goes on to its end.
  Everything else propagates: an exception of the read of the transactions, of the read
  of the RFM table, of the projection, and any other exception of the read of the rules
  ends the run with that exception.
\<close>

theorem only_rules_read_is_guarded:
  "(clothing_retail_300_csv env = Inl e \<longrightarrow> run env sel = Inl e)
   \<and> (clothing_retail_300_csv env = Inr df \<and> rfm_with_clusters_csv env = Inl e
        \<longrightarrow> run env sel = Inl e)
   \<and> (clothing_retail_300_csv env = Inr df \<and> rfm_with_clusters_csv env = Inr rfm
        \<and> project (scaler_fit_transform env) (pca_fit_transform env) rfm = Inl e
        \<longrightarrow> run env sel = Inl e)
   \<and> (clothing_retail_300_csv env = Inr df \<and> rfm_with_clusters_csv env = Inr rfm
        \<and> project (scaler_fit_transform env) (pca_fit_transform env) rfm = Inr pts
        \<and> rules_sorted_csv env = Inl e \<and> e \<noteq> FileNotFoundError
        \<longrightarrow> run env sel = Inl e)
   \<and> (clothing_retail_300_csv env = Inr df \<and> rfm_with_clusters_csv env = Inr rfm
        \<and> project (scaler_fit_transform env) (pca_fit_transform env) rfm = Inr pts
        \<and> rules_sorted_csv env = Inl FileNotFoundError
        \<longrightarrow> (\<exists>p. run env sel = Inr p \<and> shown_rules p = NoRulesWarning))
   \<and> (clothing_retail_300_csv env = Inr df \<and> rfm_with_clusters_csv env = Inr rfm
        \<and> project (scaler_fit_transform env) (pca_fit_transform env) rfm = Inr pts
        \<and> rules_sorted_csv env = Inr rules
        \<longrightarrow> (\<exists>p. run env sel = Inr p
               \<and> shown_rules p = RulesTable (take 10 (map clean_rule rules))))"
  by (simp add: run_def association_rules_def)

text \<open>The handler and the propagation, each at a concrete run.\<close>

lemma demo_project:
  "project demo_scaler demo_pca demo_rfm
     = Inr (pca_df [(5, 2), (40, 1), (7, 3), (9, 4)] (map Cluster demo_rfm))"
  by (simp add: project_def demo_scaler_def demo_pca_def features_def demo_rfm_def)

lemma demo_project_empty:
  "project demo_scaler demo_pca ([] :: int customer list) = Inl ValueError"
  by (simp add: project_def demo_scaler_def features_def)

theorem only_rules_read_is_guarded_witness:
  "run (demo_env\<lparr>clothing_retail_300_csv := Inl FileNotFoundError\<rparr>) demo_sel
     = Inl FileNotFoundError
   \<and> run (demo_env\<lparr>rfm_with_clusters_csv := Inl FileNotFoundError\<rparr>) demo_sel
     = Inl FileNotFoundError
   \<and> run (demo_env\<lparr>rfm_with_clusters_csv := Inr []\<rparr>) demo_sel = Inl ValueError
   \<and> run (demo_env\<lparr>rules_sorted_csv := Inl ParserError\<rparr>) demo_sel = Inl ParserError
   \<and> (\<exists>p. run (demo_env\<lparr>rules_sorted_csv := Inl FileNotFoundError\<rparr>) demo_sel = Inr p
          \<and> shown_rules p = NoRulesWarning)
   \<and> (\<exists>p. run demo_env demo_sel = Inr p
          \<and> shown_rules p = RulesTable (take 10 (map clean_rule demo_rules)))"
proof -
  have a: "run (demo_env\<lparr>clothing_retail_300_csv := Inl FileNotFoundError\<rparr>) demo_sel
     = Inl FileNotFoundError"
    using only_rules_read_is_guarded
      [where env = "demo_env\<lparr>clothing_retail_300_csv := Inl FileNotFoundError\<rparr>"
         and e = FileNotFoundError and sel = demo_sel]
    by (simp add: demo_env_def)
  have b: "run (demo_env\<lparr>rfm_with_clusters_csv := Inl FileNotFoundError\<rparr>) demo_sel
     = Inl FileNotFoundError"
    using only_rules_read_is_guarded
      [where env = "demo_env\<lparr>rfm_with_clusters_csv := Inl FileNotFoundError\<rparr>"
         and e = FileNotFoundError and sel = demo_sel and df = demo_df]
    by (simp add: demo_env_def)
  have c: "run (demo_env\<lparr>rfm_with_clusters_csv := Inr []\<rparr>) demo_sel = Inl ValueError"
    using only_rules_read_is_guarded
      [where env = "demo_env\<lparr>rfm_with_clusters_csv := Inr []\<rparr>"
         and e = ValueError and sel = demo_sel and df = demo_df and rfm = "[]"]
      demo_project_empty
    by (simp add: demo_env_def)
  have d: "run (demo_env\<lparr>rules_sorted_csv := Inl ParserError\<rparr>) demo_sel = Inl ParserError"
    using only_rules_read_is_guarded
      [where env = "demo_env\<lparr>rules_sorted_csv := Inl ParserError\<rparr>"
         and e = ParserError and sel = demo_sel and df = demo_df and rfm = demo_rfm
         and pts = "pca_df [(5, 2), (40, 1), (7, 3), (9, 4)] (map Cluster demo_rfm)"]
      demo_project
    by (simp add: demo_env_def)
  have e: "\<exists>p. run (demo_env\<lparr>rules_sorted_csv := Inl FileNotFoundError\<rparr>) demo_sel = Inr p
          \<and> shown_rules p = NoRulesWarning"
    using only_rules_read_is_guarded
      [where env = "demo_env\<lparr>rules_sorted_csv := Inl FileNotFoundError\<rparr>"
         and e = ParserError and sel = demo_sel and df = demo_df and rfm = demo_rfm
         and pts = "pca_df [(5, 2), (40, 1), (7, 3), (9, 4)] (map Cluster demo_rfm)"]
      demo_project
    by (simp add: demo_env_def)
  have f: "\<exists>p. run demo_env demo_sel = Inr p
          \<and> shown_rules p = RulesTable (take 10 (map clean_rule demo_rules))"
    using only_rules_read_is_guarded
      [where env = demo_env
         and e = ParserError and sel = demo_sel and df = demo_df and rfm = demo_rfm
         and pts = "pca_df [(5, 2), (40, 1), (7, 3), (9, 4)] (map Cluster demo_rfm)"
         and rules = demo_rules]
      demo_project
    by (simp add: demo_env_def)
  show ?thesis by (rule conjI[OF a conjI[OF b conjI[OF c conjI[OF d conjI[OF e f]]]]])
qed

subsection \<open>The country and season filters\<close>

text \<open>
  Claim C10. Whatever country and season are selected, a run ends with the same exception
  or shows the same PCA frame, the same segment metrics and the same seasonal revenue:
  they are computed from the whole RFM table and the whole transaction table.
\<close>

theorem filters_do_not_reach_unfiltered_outputs:
  "map_sum id (\<lambda>p. (shown_pca_df p, shown_metrics p, shown_seasonal_revenue p))
     (run env (sel\<lparr>country := c, season := s\<rparr>))
   = map_sum id (\<lambda>p. (shown_pca_df p, shown_metrics p, shown_seasonal_revenue p))
     (run env sel)"
  by (simp add: run_def split: sum.splits)

text \<open>The size breakdown, for one, does depend on the filter.\<close>

lemma breakdowns_depend_on_filter:
  "map_sum id shown_size_counts (run demo_env demo_sel)
     = Inr [(''XS'', NaN), (''S'', NaN), (''M'', Num 1), (''L'', NaN), (''XL'', NaN)]"
  "map_sum id shown_size_counts (run demo_env (demo_sel\<lparr>season := ''Summer''\<rparr>))
     = Inr [(''XS'', NaN), (''S'', Num 1), (''M'', NaN), (''L'', NaN), (''XL'', NaN)]"
  by (simp_all add: run_def demo_env_def demo_sel_def demo_df_def demo_rfm_def project_def
        demo_scaler_def demo_pca_def features_def association_rules_def demo_rules_def
        size_counts_def filtered_df_def)

end
